theory Spec2Isabelle
  imports Main
begin

section \<open>JavaScript values used by the listener\<close>

text \<open>
  Durations are JavaScript numbers. Every duration the program handles is an integer count
  of milliseconds (a configured constant or the result of \<^verbatim>\<open>Number.parseInt\<close>), so a
  number is modelled as an exact integer or \<^verbatim>\<open>NaN\<close>. (Doubles carry integers exactly up
  to \<open>2^53\<close>; the rounding of longer digit strings is not modelled.)
\<close>

datatype jsnum = NaN | Num int

text \<open>\<^verbatim>\<open>Math.min(a, b)\<close>: \<^verbatim>\<open>NaN\<close> as soon as one argument is \<^verbatim>\<open>NaN\<close>.\<close>

fun Math_min :: "jsnum \<Rightarrow> jsnum \<Rightarrow> jsnum" where
  "Math_min (Num a) (Num b) = Num (min a b)"
| "Math_min _ _ = NaN"

text \<open>The binary \<^verbatim>\<open>+\<close> on two numbers.\<close>

fun js_add :: "jsnum \<Rightarrow> jsnum \<Rightarrow> jsnum" where
  "js_add (Num a) (Num b) = Num (a + b)"
| "js_add _ _ = NaN"

text \<open>
  A value of type \<^verbatim>\<open>string | undefined\<close> (or \<^verbatim>\<open>string | null\<close>) is a
  \<open>string option\<close>; it is truthy when it is a non-empty string.
\<close>

definition truthy :: "string option \<Rightarrow> bool" where
  "truthy v = (case v of None \<Rightarrow> False | Some s \<Rightarrow> s \<noteq> [])"

text \<open>
  \<^verbatim>\<open>Number.parseInt(s, 10)\<close>: leading white space is skipped, one sign is read, then the
  longest prefix of decimal digits; no digit at all gives \<^verbatim>\<open>NaN\<close>. White space is the
  ASCII part of the language's white space (tab, line feed, vertical tab, form feed,
  carriage return, space).
\<close>

definition is_white :: "char \<Rightarrow> bool" where
  "is_white c = (c = CHR 0x09 \<or> c = CHR 0x0A \<or> c = CHR 0x0B \<or> c = CHR 0x0C
     \<or> c = CHR 0x0D \<or> c = CHR 0x20)"

definition is_digit :: "char \<Rightarrow> bool" where
  "is_digit c = (48 \<le> (of_char c :: nat) \<and> (of_char c :: nat) \<le> 57)"

definition digit_val :: "char \<Rightarrow> int" where
  "digit_val c = int (of_char c) - 48"

definition digits_value :: "string \<Rightarrow> int" where
  "digits_value ds = foldl (\<lambda>acc c. acc * 10 + digit_val c) 0 ds"

definition Number_parseInt :: "string \<Rightarrow> jsnum" where
  "Number_parseInt s =
     (let t = dropWhile is_white s;
          neg = (case t of [] \<Rightarrow> False | c # _ \<Rightarrow> c = CHR ''-'');
          u = (case t of [] \<Rightarrow> []
                | c # r \<Rightarrow> if c = CHR ''+'' \<or> c = CHR ''-'' then r else t);
          z = takeWhile is_digit u
      in if z = [] then NaN
         else Num ((if neg then - 1 else 1) * digits_value z))"

text \<open>
  A thrown value: an instance of \<^verbatim>\<open>Error\<close> with its \<^verbatim>\<open>message\<close>, or any other value
  with the string \<^verbatim>\<open>String(value)\<close> gives for it.
\<close>

datatype thrown = JsError string | NonError string

text \<open>\<^verbatim>\<open>error instanceof Error ? error.message : String(error)\<close>\<close>

fun error_message :: "thrown \<Rightarrow> string" where
  "error_message (JsError m) = m"
| "error_message (NonError s) = s"

section \<open>Requests and responses\<close>

text \<open>
  Of a request the program reads two things: the query parameter \<^verbatim>\<open>duration\<close>
  (\<^verbatim>\<open>new URL(request.url).searchParams.get("duration")\<close>) and the header
  \<^verbatim>\<open>authorization\<close> (\<^verbatim>\<open>request.headers.get("authorization")\<close>); both are
  \<^verbatim>\<open>null\<close> when absent.
\<close>

record request =
  url_duration :: "string option"
  authorization :: "string option"

record response =
  status :: nat
  body :: string
  content_type :: string

text \<open>
  \<^verbatim>\<open>new Response(text, { status })\<close>: a string body without an explicit header is sent as
  plain text.
\<close>

definition Response_text :: "string \<Rightarrow> nat \<Rightarrow> response" where
  "Response_text b st = \<lparr>status = st, body = b, content_type = ''text/plain;charset=UTF-8''\<rparr>"

text \<open>\<^verbatim>\<open>JSON.stringify\<close> of a string, and of an object with two string fields.\<close>

definition hex_digit :: "nat \<Rightarrow> char" where
  "hex_digit n = (if n < 10 then char_of (48 + n) else char_of (87 + n))"

definition json_escape :: "char \<Rightarrow> string" where
  "json_escape c =
     (if c = CHR 0x22 then [CHR 0x5C, CHR 0x22]
      else if c = CHR 0x5C then [CHR 0x5C, CHR 0x5C]
      else if c = CHR 0x08 then [CHR 0x5C, CHR ''b'']
      else if c = CHR 0x0C then [CHR 0x5C, CHR ''f'']
      else if c = CHR 0x0A then [CHR 0x5C, CHR ''n'']
      else if c = CHR 0x0D then [CHR 0x5C, CHR ''r'']
      else if c = CHR 0x09 then [CHR 0x5C, CHR ''t'']
      else if (of_char c :: nat) < 32
        then [CHR 0x5C, CHR ''u'', CHR ''0'', CHR ''0'',
              hex_digit (of_char c div 16), hex_digit (of_char c mod 16)]
      else [c])"

definition JSON_string :: "string \<Rightarrow> string" where
  "JSON_string s = [CHR 0x22] @ concat (map json_escape s) @ [CHR 0x22]"

definition JSON_error_object :: "string \<Rightarrow> string \<Rightarrow> string" where
  "JSON_error_object err msg =
     ''{'' @ JSON_string ''error'' @ '':'' @ JSON_string err @ '',''
       @ JSON_string ''message'' @ '':'' @ JSON_string msg @ ''}''"

section \<open>The persistent listener\<close>

record PersistentListenerConfig =
  name :: string
  redisUrl :: "string option"
  defaultDurationMs :: jsnum
  maxDurationMs :: jsnum

text \<open>
  The options of \<^verbatim>\<open>start\<close>. \<^verbatim>\<open>getDuration\<close> is optional and returns a number or
  \<^verbatim>\<open>undefined\<close>. \<^verbatim>\<open>afterTask\<close> hands a task to the host and returns nothing; the
  invocation state counts these calls. \<^verbatim>\<open>run\<close> returns a promise, whose settling is an
  event of the invocation (below). Both synchronous callbacks are taken to return as
  their types say; a promise may be rejected.
\<close>

record start_options =
  getDuration :: "(request \<Rightarrow> jsnum option) option"

text \<open>
  What \<^verbatim>\<open>start\<close> reads from its environment to build the listener id: the decimal
  rendering of \<^verbatim>\<open>Date.now()\<close> and \<^verbatim>\<open>Math.random().toString(36).slice(2, 8)\<close>.
\<close>

record start_env =
  now :: string
  rand :: string

datatype client = PubClient | SubClient

datatype redis_cmd =
    Connect client
  | Subscribe string
  | Publish string string
  | Unsubscribe string
  | Quit client

datatype log_entry =
    LogStarting string
  | LogCompleted string
  | LogRunError thrown
  | LogShutdownSignal string string
  | LogPublished string
  | LogPubSubError thrown
  | LogCleanup string

text \<open>
  The promise returned by \<^verbatim>\<open>start\<close>: pending while \<^verbatim>\<open>start\<close> is suspended at
  \<^verbatim>\<open>await run(...)\<close>, then fulfilled with a response or rejected.
  \<^verbatim>\<open>setupRedisPubSub\<close> is suspended at one of its six \<^verbatim>\<open>await\<close>s or has finished.
\<close>

datatype main_phase = AwaitRun | Returned response | Threw thrown

datatype side_phase =
    Connecting | Subscribing | Publishing | Waiting | Unsubscribing | Quitting | Finished

record invocation =
  listener_name :: string
  channel :: string
  listenerId :: string
  durationMs :: jsnum
  aborted :: bool
  abort_listener :: bool
  timer :: "jsnum option"
  subscribed :: bool
  main :: main_phase
  side :: "side_phase option"
  scheduled :: nat
  cmds :: "redis_cmd list"
  log :: "log_entry list"

text \<open>The duration asked for by the request (lines 83 to 89 of the listener).\<close>

definition requestedDuration :: "start_options \<Rightarrow> request \<Rightarrow> jsnum option" where
  "requestedDuration opts req =
     (case getDuration opts of
        Some g \<Rightarrow> g req
      | None \<Rightarrow>
          (case url_duration req of
             None \<Rightarrow> None
           | Some param \<Rightarrow> if truthy (Some param) then Some (Number_parseInt param) else None))"

text \<open>
  \<^verbatim>\<open>Math.min(requestedDuration ?? defaultDurationMs, maxDurationMs)\<close>
\<close>

definition effectiveDuration :: "PersistentListenerConfig \<Rightarrow> jsnum option \<Rightarrow> jsnum" where
  "effectiveDuration cfg requested =
     Math_min (case requested of None \<Rightarrow> defaultDurationMs cfg | Some d \<Rightarrow> d)
       (maxDurationMs cfg)"

text \<open>
  The synchronous start of \<^verbatim>\<open>setupRedisPubSub\<close>: both clients are created and both
  \<^verbatim>\<open>connect\<close> calls are issued; the task is suspended at the first \<^verbatim>\<open>await\<close>.
\<close>

definition setupRedisPubSub_begin :: "invocation \<Rightarrow> invocation" where
  "setupRedisPubSub_begin s =
     s\<lparr>cmds := cmds s @ [Connect PubClient, Connect SubClient], side := Some Connecting\<rparr>"

text \<open>
  \<^verbatim>\<open>start\<close> up to its suspension at \<^verbatim>\<open>await run(...)\<close>: the id, the effective duration,
  a fresh abort controller, the coordination task (only with a truthy \<^verbatim>\<open>redisUrl\<close>)
  handed to \<^verbatim>\<open>afterTask\<close>, and the call of \<^verbatim>\<open>run\<close> with the signal, the id and the
  duration.
\<close>

definition start_begin ::
  "PersistentListenerConfig \<Rightarrow> request \<Rightarrow> start_options \<Rightarrow> start_env \<Rightarrow> invocation" where
  "start_begin cfg req opts env =
     (let lid = name cfg @ ''-'' @ now env @ ''-'' @ rand env;
          s = \<lparr>listener_name = name cfg,
               channel = ''persistent-listener:'' @ name cfg @ '':control'',
               listenerId = lid,
               durationMs = effectiveDuration cfg (requestedDuration opts req),
               aborted = False, abort_listener = False, timer = None,
               subscribed = False, main = AwaitRun, side = None, scheduled = 0,
               cmds = [], log = [LogStarting lid]\<rparr>
      in if truthy (redisUrl cfg)
         then (setupRedisPubSub_begin s)\<lparr>scheduled := 1\<rparr>
         else s)"

section \<open>The invocation as a machine driven by events\<close>

text \<open>
  After \<^verbatim>\<open>start\<close> has called \<^verbatim>\<open>run\<close>, two asynchronous functions are suspended: \<^verbatim>\<open>start\<close>
  itself and, with a Redis URL, \<^verbatim>\<open>setupRedisPubSub\<close>. Each resumes when the promise it
  awaits settles. The events are the settlings of these promises, the delivery of a message
  to the subscription callback, and the expiry of the timer of the final wait. A settling
  carries \<open>None\<close> for a fulfilled promise and \<open>Some e\<close> for one rejected with \<open>e\<close>.
\<close>

datatype event =
    RunResolved response
  | RunRejected thrown
  | ConnectSettled "thrown option"
  | SubscribeSettled "thrown option"
  | Message string
  | PublishSettled "thrown option"
  | TimerFired
  | UnsubscribeSettled "thrown option"
  | QuitSettled "thrown option" "thrown option"

text \<open>The response of the \<^verbatim>\<open>catch\<close> branch of \<^verbatim>\<open>start\<close> (lines 122 to 131).\<close>

definition error_response :: "string \<Rightarrow> thrown \<Rightarrow> response" where
  "error_response n e =
     \<lparr>status = 500,
      body = JSON_error_object (''Failed to run '' @ n @ '' listener'') (error_message e),
      content_type = ''application/json''\<rparr>"

text \<open>
  The \<^verbatim>\<open>finally\<close> block starts by issuing \<^verbatim>\<open>unsubscribe\<close>; the \<^verbatim>\<open>catch\<close> block logs the
  error and falls through to it.
\<close>

definition enter_finally :: "invocation \<Rightarrow> invocation" where
  "enter_finally s =
     s\<lparr>cmds := cmds s @ [Unsubscribe (channel s)], side := Some Unsubscribing\<rparr>"

definition catch_error :: "thrown \<Rightarrow> invocation \<Rightarrow> invocation" where
  "catch_error e s = enter_finally (s\<lparr>log := log s @ [LogPubSubError e]\<rparr>)"

text \<open>
  \<^verbatim>\<open>resolve()\<close> of the promise of the final wait: it resumes \<^verbatim>\<open>setupRedisPubSub\<close> if that
  is still waiting, and does nothing on a promise already resolved.
\<close>

definition resolve_wait :: "invocation \<Rightarrow> invocation" where
  "resolve_wait s = (if side s = Some Waiting then enter_finally s else s)"

text \<open>
  \<^verbatim>\<open>abortController.abort()\<close>: nothing on a signal already aborted; otherwise the signal
  becomes aborted and the \<^verbatim>\<open>abort\<close> event is dispatched to the listener registered by the
  final wait, if there is one (registered with \<^verbatim>\<open>once\<close>: it clears the timer and resolves).
\<close>

definition abort :: "invocation \<Rightarrow> invocation" where
  "abort s =
     (if aborted s then s
      else if abort_listener s
        then resolve_wait (s\<lparr>aborted := True, abort_listener := False, timer := None\<rparr>)
        else s\<lparr>aborted := True\<rparr>)"

text \<open>The callback given to \<^verbatim>\<open>subClient.subscribe\<close> (lines 153 to 163).\<close>

definition on_message :: "string \<Rightarrow> invocation \<Rightarrow> invocation" where
  "on_message message s =
     (if message = listenerId s then s
      else abort (s\<lparr>log := log s @ [LogShutdownSignal (listenerId s) message]\<rparr>))"

text \<open>
  The final wait (lines 170 to 180): a timer of \<^verbatim>\<open>durationMs + 5000\<close> is armed and a
  listener for the \<^verbatim>\<open>abort\<close> event is added to the signal.
\<close>

definition begin_wait :: "invocation \<Rightarrow> invocation" where
  "begin_wait s =
     s\<lparr>timer := Some (js_add (durationMs s) (Num 5000)), abort_listener := True,
       side := Some Waiting\<rparr>"

fun step :: "event \<Rightarrow> invocation \<Rightarrow> invocation" where
  "step (RunResolved r) s =
     (if main s = AwaitRun
      then s\<lparr>main := Returned r, log := log s @ [LogCompleted (listenerId s)]\<rparr>
      else s)"
| "step (RunRejected e) s =
     (if main s = AwaitRun
      then s\<lparr>main := Returned (error_response (listener_name s) e),
             log := log s @ [LogRunError e]\<rparr>
      else s)"
| "step (ConnectSettled r) s =
     (if side s = Some Connecting
      then (case r of
              None \<Rightarrow> s\<lparr>cmds := cmds s @ [Subscribe (channel s)], side := Some Subscribing\<rparr>
            | Some e \<Rightarrow> catch_error e s)
      else s)"
| "step (SubscribeSettled r) s =
     (if side s = Some Subscribing
      then (case r of
              None \<Rightarrow> s\<lparr>subscribed := True,
                         cmds := cmds s @ [Publish (channel s) (listenerId s)],
                         side := Some Publishing\<rparr>
            | Some e \<Rightarrow> catch_error e s)
      else s)"
| "step (Message m) s = (if subscribed s then on_message m s else s)"
| "step (PublishSettled r) s =
     (if side s = Some Publishing
      then (case r of
              None \<Rightarrow> begin_wait (s\<lparr>log := log s @ [LogPublished (listenerId s)]\<rparr>)
            | Some e \<Rightarrow> catch_error e s)
      else s)"
| "step TimerFired s =
     (case timer s of None \<Rightarrow> s | Some d \<Rightarrow> resolve_wait (s\<lparr>timer := None\<rparr>))"
| "step (UnsubscribeSettled r) s =
     (if side s = Some Unsubscribing
      then s\<lparr>subscribed := (case r of None \<Rightarrow> False | Some e \<Rightarrow> subscribed s),
             cmds := cmds s @ [Quit PubClient, Quit SubClient],
             side := Some Quitting\<rparr>
      else s)"
| "step (QuitSettled p q) s =
     (if side s = Some Quitting
      then s\<lparr>subscribed := False, side := Some Finished,
             log := log s @ [LogCleanup (listenerId s)]\<rparr>
      else s)"

fun exec :: "event list \<Rightarrow> invocation \<Rightarrow> invocation" where
  "exec [] s = s"
| "exec (e # es) s = exec es (step e s)"

section \<open>Several invocations and the coordination channel\<close>

text \<open>
  Invocations on different instances meet only through Redis. The server is not part of the
  repository; it is taken to do what Redis pub/sub does. When the server processes a
  \<^verbatim>\<open>PUBLISH\<close> it sends the message to every client that is then subscribed to the channel
  on that server, the publisher's own subscription included. Each of these messages
  travels on its own: it reaches its client later, as an event of its own, and is handed to
  the subscription callback if that is still registered. A \<^verbatim>\<open>publish\<close> call that is
  fulfilled has been processed by the server; one that is rejected need not have been. A
  subscription counts from the moment \<^verbatim>\<open>subscribe\<close> is fulfilled.

  A system lists its invocations in the order in which they were started, with the Redis
  URL each was configured with, the messages sent by a server and not yet received
  (receiver and message), and the invocations whose \<^verbatim>\<open>publish\<close> a server has processed.
\<close>

record system =
  sessions :: "invocation list"
  stores :: "string option list"
  in_flight :: "(nat \<times> string) list"
  processed :: "nat list"

definition sys_init :: system where
  "sys_init = \<lparr>sessions = [], stores = [], in_flight = [], processed = []\<rparr>"

datatype sys_event =
    Start PersistentListenerConfig request start_options start_env
  | At nat event
  | Broadcast nat
  | Deliver nat string

text \<open>The clients to which the server sends the announcement of invocation \<open>j\<close>.\<close>

definition recipients :: "system \<Rightarrow> nat \<Rightarrow> (nat \<times> string) list" where
  "recipients S j =
     map (\<lambda>i. (i, listenerId (sessions S ! j)))
       (filter (\<lambda>i. subscribed (sessions S ! i)
                  \<and> channel (sessions S ! i) = channel (sessions S ! j)
                  \<and> stores S ! i = stores S ! j)
          [0..<length (sessions S)])"

text \<open>
  The server processes the \<^verbatim>\<open>publish\<close> of invocation \<open>j\<close>, once, while \<open>j\<close> awaits it.
\<close>

definition broadcast :: "nat \<Rightarrow> system \<Rightarrow> system" where
  "broadcast j S =
     (if j < length (sessions S) \<and> side (sessions S ! j) = Some Publishing
         \<and> j \<notin> set (processed S)
      then S\<lparr>in_flight := in_flight S @ recipients S j, processed := j # processed S\<rparr>
      else S)"

fun sys_step :: "sys_event \<Rightarrow> system \<Rightarrow> system" where
  "sys_step (Start cfg req opts env) S =
     S\<lparr>sessions := sessions S @ [start_begin cfg req opts env],
       stores := stores S @ [redisUrl cfg]\<rparr>"
| "sys_step (At i ev) S =
     (if i < length (sessions S)
      then (let S' = (if ev = PublishSettled None then broadcast i S else S)
            in S'\<lparr>sessions := (sessions S')[i := step ev (sessions S' ! i)]\<rparr>)
      else S)"
| "sys_step (Broadcast j) S = broadcast j S"
| "sys_step (Deliver i m) S =
     (if i < length (sessions S) \<and> (i, m) \<in> set (in_flight S)
      then S\<lparr>sessions := (sessions S)[i := step (Message m) (sessions S ! i)],
             in_flight := remove1 (i, m) (in_flight S)\<rparr>
      else S)"

fun sys_exec :: "sys_event list \<Rightarrow> system \<Rightarrow> system" where
  "sys_exec [] S = S"
| "sys_exec (e # es) S = sys_exec es (sys_step e S)"

section \<open>The Discord gateway endpoint\<close>

text \<open>
  What the route handler reads from its environment: the variables of
  \<^verbatim>\<open>process.env\<close>, the outcome of \<^verbatim>\<open>await bot.initialize()\<close> (\<open>None\<close> when the promise
  is fulfilled, \<open>Some e\<close> when it is rejected with \<open>e\<close>), whether
  \<^verbatim>\<open>bot.getAdapter("discord")\<close> is defined, and the clock and random source of \<^verbatim>\<open>start\<close>.
\<close>

record gateway_env =
  CRON_SECRET :: "string option"
  REDIS_URL :: "string option"
  VERCEL_PROJECT_PRODUCTION_URL :: "string option"
  VERCEL_URL :: "string option"
  NEXT_PUBLIC_BASE_URL :: "string option"
  VERCEL_AUTOMATION_BYPASS_SECRET :: "string option"
  bot_initialize :: "thrown option"
  discord_adapter :: bool
  clock :: start_env

definition DEFAULT_DURATION_MS :: jsnum where
  "DEFAULT_DURATION_MS = Num (600 * 1000)"

definition discordGateway :: "gateway_env \<Rightarrow> PersistentListenerConfig" where
  "discordGateway env =
     \<lparr>name = ''discord-gateway'', redisUrl = REDIS_URL env,
      defaultDurationMs = DEFAULT_DURATION_MS, maxDurationMs = DEFAULT_DURATION_MS\<rparr>"

text \<open>\<^verbatim>\<open>a || b\<close> on two optional strings.\<close>

definition js_or :: "string option \<Rightarrow> string option \<Rightarrow> string option" where
  "js_or a b = (if truthy a then a else b)"

text \<open>The URL to which gateway events are forwarded (lines 60 to 71 of the route).\<close>

definition webhookUrl :: "gateway_env \<Rightarrow> string option" where
  "webhookUrl env =
     (case js_or (js_or (VERCEL_PROJECT_PRODUCTION_URL env) (VERCEL_URL env))
             (NEXT_PUBLIC_BASE_URL env) of
        None \<Rightarrow> None
      | Some baseUrl \<Rightarrow>
          if truthy (Some baseUrl)
          then Some (''https://'' @ baseUrl @ ''/api/webhooks/discord''
                 @ (case VERCEL_AUTOMATION_BYPASS_SECRET env of
                      None \<Rightarrow> []
                    | Some bypassSecret \<Rightarrow>
                        if truthy (Some bypassSecret)
                        then ''?x-vercel-protection-bypass='' @ bypassSecret
                        else []))
          else None)"

text \<open>
  The handler rejects, answers at once, or goes into \<^verbatim>\<open>discordGateway.start\<close>, whose run
  function returns the response of \<^verbatim>\<open>discord.startGatewayListener\<close> unchanged (that call
  gets the forwarding URL); the promise the handler returns is then the one of \<^verbatim>\<open>start\<close>.
\<close>

datatype gateway_result =
    Rejected thrown
  | Immediate response
  | Started invocation "string option"

definition GET :: "request \<Rightarrow> gateway_env \<Rightarrow> gateway_result" where
  "GET req env =
     (case CRON_SECRET env of
        None \<Rightarrow> Immediate (Response_text ''CRON_SECRET not configured'' 500)
      | Some cronSecret \<Rightarrow>
          if \<not> truthy (Some cronSecret)
            then Immediate (Response_text ''CRON_SECRET not configured'' 500)
          else if authorization req \<noteq> Some (''Bearer '' @ cronSecret)
            then Immediate (Response_text ''Unauthorized'' 401)
          else (case bot_initialize env of
                  Some e \<Rightarrow> Rejected e
                | None \<Rightarrow>
                    if \<not> discord_adapter env
                    then Immediate (Response_text ''Discord adapter not configured'' 404)
                    else Started
                           (start_begin (discordGateway env) req \<lparr>getDuration = None\<rparr>
                              (clock env))
                           (webhookUrl env)))"

text \<open>
  The Slack install callback is the other handler of the repository that initialises the
  bot. It looks for its adapter first, and awaits \<^verbatim>\<open>bot.initialize()\<close> and the adapter's
  \<^verbatim>\<open>handleOAuthCallback\<close> (rejected, or fulfilled with the team id) inside a \<^verbatim>\<open>try\<close>
  block whose \<^verbatim>\<open>catch\<close> returns a response.
\<close>

record slack_env =
  slack_adapter :: bool
  slack_bot_initialize :: "thrown option"
  handleOAuthCallback :: "thrown + string"

definition slack_install_callback :: "slack_env \<Rightarrow> response" where
  "slack_install_callback env =
     (if \<not> slack_adapter env then Response_text ''Slack adapter not configured'' 500
      else (case slack_bot_initialize env of
              Some e \<Rightarrow> Response_text ''OAuth installation failed'' 500
            | None \<Rightarrow>
                (case handleOAuthCallback env of
                   Inl e \<Rightarrow> Response_text ''OAuth installation failed'' 500
                 | Inr teamId \<Rightarrow>
                     Response_text (''Slack app installed for team '' @ teamId @ ''!'') 200)))"

text \<open>The events that settle the promise of \<^verbatim>\<open>run\<close>.\<close>

definition is_run_event :: "event \<Rightarrow> bool" where
  "is_run_event ev =
     (case ev of RunResolved r \<Rightarrow> True | RunRejected e \<Rightarrow> True | _ \<Rightarrow> False)"

text \<open>An invocation without a coordination task: nothing of the side channel exists.\<close>

definition uncoordinated :: "invocation \<Rightarrow> bool" where
  "uncoordinated s = (side s = None \<and> \<not> subscribed s \<and> \<not> aborted s \<and> timer s = None
     \<and> cmds s = [] \<and> scheduled s = 0)"

text \<open>
  While \<^verbatim>\<open>setupRedisPubSub\<close> is between its \<^verbatim>\<open>publish\<close> call and the end of its final
  wait, the subscription callback is registered.
\<close>

definition window_inv :: "invocation \<Rightarrow> bool" where
  "window_inv s =
     (if side s = Some Publishing \<or> side s = Some Waiting then subscribed s else True)"

text \<open>The channel of an invocation is the one named after its listener.\<close>

definition session_inv :: "invocation \<Rightarrow> bool" where
  "session_inv s =
     (window_inv s \<and> channel s = ''persistent-listener:'' @ listener_name s @ '':control'')"

section \<open>Example invocations\<close>

text \<open>
  The gateway's listener with a Redis URL, two invocations \<open>A\<close> and \<open>B\<close> of it started
  250 ms apart, an invocation without Redis, and a request of the cron job to the gateway
  endpoint.
\<close>

definition example_config :: PersistentListenerConfig where
  "example_config =
     \<lparr>name = ''discord-gateway'', redisUrl = Some ''redis://cache:6379'',
      defaultDurationMs = Num 600000, maxDurationMs = Num 600000\<rparr>"

definition example_request :: request where
  "example_request = \<lparr>url_duration = None, authorization = None\<rparr>"

definition ok_response :: response where
  "ok_response = \<lparr>status = 200, body = ''listening'', content_type = ''application/json''\<rparr>"

definition session_A :: invocation where
  "session_A = start_begin example_config example_request \<lparr>getDuration = None\<rparr>
     \<lparr>now = ''1700000000000'', rand = ''k3x9qz''\<rparr>"

definition session_B :: invocation where
  "session_B = start_begin example_config example_request \<lparr>getDuration = None\<rparr>
     \<lparr>now = ''1700000000250'', rand = ''q0w8ee''\<rparr>"

definition session_without_redis :: invocation where
  "session_without_redis =
     start_begin (example_config\<lparr>redisUrl := None\<rparr>) example_request
       \<lparr>getDuration = None\<rparr> \<lparr>now = ''1700000000000'', rand = ''k3x9qz''\<rparr>"

definition start_A :: sys_event where
  "start_A = Start example_config example_request \<lparr>getDuration = None\<rparr>
     \<lparr>now = ''1700000000000'', rand = ''k3x9qz''\<rparr>"

definition start_B :: sys_event where
  "start_B = Start example_config example_request \<lparr>getDuration = None\<rparr>
     \<lparr>now = ''1700000000250'', rand = ''q0w8ee''\<rparr>"

text \<open>
  \<open>B\<close> starts after \<open>A\<close> but connects, subscribes and publishes first, its \<^verbatim>\<open>publish\<close>
  being fulfilled; then \<open>A\<close> does the same and waits until its timer fires.
\<close>

definition race_schedule :: "sys_event list" where
  "race_schedule =
     [start_A, start_B,
      At 1 (ConnectSettled None), At 1 (SubscribeSettled None), At 1 (PublishSettled None),
      At 0 (ConnectSettled None), At 0 (SubscribeSettled None), At 0 (PublishSettled None),
      At 0 TimerFired]"

text \<open>
  \<open>A\<close> is subscribed and waiting when \<open>B\<close> starts; the run function of \<open>B\<close> returns
  before the coordination task of \<open>B\<close> has connected.
\<close>

definition handoff_schedule :: "sys_event list" where
  "handoff_schedule =
     [start_A,
      At 0 (ConnectSettled None), At 0 (SubscribeSettled None), At 0 (PublishSettled None),
      start_B, At 1 (RunResolved ok_response)]"

definition gateway_environment :: gateway_env where
  "gateway_environment =
     \<lparr>CRON_SECRET = Some ''s3cret'', REDIS_URL = Some ''redis://cache:6379'',
      VERCEL_PROJECT_PRODUCTION_URL = Some ''bot.example.com'', VERCEL_URL = None,
      NEXT_PUBLIC_BASE_URL = None, VERCEL_AUTOMATION_BYPASS_SECRET = None,
      bot_initialize = None, discord_adapter = True,
      clock = \<lparr>now = ''1700000000000'', rand = ''k3x9qz''\<rparr>\<rparr>"

definition cron_request :: request where
  "cron_request = \<lparr>url_duration = None, authorization = Some ''Bearer s3cret''\<rparr>"

section \<open>Effective duration\<close>

lemma Math_min_Num: "Math_min (Num a) (Num b) = Num (min a b)"
  by simp

lemma durationMs_start_begin:
  "durationMs (start_begin cfg req opts env) =
     effectiveDuration cfg (requestedDuration opts req)"
  by (simp add: start_begin_def Let_def setupRedisPubSub_begin_def)

lemma parseInt_999999999: "Number_parseInt ''999999999'' = Num 999999999"
  by (simp add: Number_parseInt_def is_white_def is_digit_def digits_value_def digit_val_def)

lemma parseInt_100000: "Number_parseInt ''100000'' = Num 100000"
  by (simp add: Number_parseInt_def is_white_def is_digit_def digits_value_def digit_val_def)

text \<open>
  C1. A duration \<open>d\<close> is supplied when \<^verbatim>\<open>getDuration\<close> returns it for the request or,
  without \<^verbatim>\<open>getDuration\<close>, when the request has a non-empty \<^verbatim>\<open>duration\<close> parameter, which
  \<^verbatim>\<open>Number.parseInt\<close> reads as \<open>d\<close>; then the duration that \<^verbatim>\<open>start\<close> passes on is
  \<^verbatim>\<open>Math.min(d, maxDurationMs)\<close>. None is supplied when \<^verbatim>\<open>getDuration\<close> returns
  \<^verbatim>\<open>undefined\<close> or, without \<^verbatim>\<open>getDuration\<close>, when the parameter is missing or empty; then
  it is \<^verbatim>\<open>Math.min(defaultDurationMs, maxDurationMs)\<close>. On numbers \<^verbatim>\<open>Math.min\<close> is the
  smaller of the two.
\<close>

theorem start_effective_duration:
  "(getDuration opts = Some g \<and> g req = Some d \<longrightarrow>
      durationMs (start_begin cfg req opts env) = Math_min d (maxDurationMs cfg))
   \<and> (getDuration opts = None \<and> url_duration req = Some p \<and> p \<noteq> [] \<longrightarrow>
      durationMs (start_begin cfg req opts env)
        = Math_min (Number_parseInt p) (maxDurationMs cfg))
   \<and> (getDuration opts = Some g \<and> g req = None \<longrightarrow>
      durationMs (start_begin cfg req opts env)
        = Math_min (defaultDurationMs cfg) (maxDurationMs cfg))
   \<and> (getDuration opts = None \<and> (url_duration req = None \<or> url_duration req = Some []) \<longrightarrow>
      durationMs (start_begin cfg req opts env)
        = Math_min (defaultDurationMs cfg) (maxDurationMs cfg))
   \<and> (getDuration opts = Some g \<and> g req = Some (Num x) \<and> maxDurationMs cfg = Num m \<longrightarrow>
      durationMs (start_begin cfg req opts env) = Num (min x m))
   \<and> (getDuration opts = None \<and> url_duration req = Some p \<and> p \<noteq> []
        \<and> Number_parseInt p = Num x \<and> maxDurationMs cfg = Num m \<longrightarrow>
      durationMs (start_begin cfg req opts env) = Num (min x m))
   \<and> (defaultDurationMs cfg = Num y \<and> maxDurationMs cfg = Num m \<longrightarrow>
       (getDuration opts = Some g \<and> g req = None \<longrightarrow>
          durationMs (start_begin cfg req opts env) = Num (min y m))
     \<and> (getDuration opts = None \<and> (url_duration req = None \<or> url_duration req = Some [])
          \<longrightarrow> durationMs (start_begin cfg req opts env) = Num (min y m)))"
  by (auto simp: durationMs_start_begin effectiveDuration_def requestedDuration_def truthy_def)

theorem start_effective_duration_witness:
  "durationMs (start_begin
      \<lparr>name = ''discord-gateway'', redisUrl = None,
       defaultDurationMs = Num 300000, maxDurationMs = Num 600000\<rparr>
      \<lparr>url_duration = Some ''100000'', authorization = None\<rparr>
      \<lparr>getDuration = None\<rparr> \<lparr>now = ''1700000000000'', rand = ''k3x9qz''\<rparr>)
    = Num 100000
   \<and> durationMs (start_begin
      \<lparr>name = ''discord-gateway'', redisUrl = None,
       defaultDurationMs = Num 300000, maxDurationMs = Num 600000\<rparr>
      \<lparr>url_duration = Some ''999999999'', authorization = None\<rparr>
      \<lparr>getDuration = None\<rparr> \<lparr>now = ''1700000000000'', rand = ''k3x9qz''\<rparr>)
    = Num 600000
   \<and> durationMs (start_begin
      \<lparr>name = ''discord-gateway'', redisUrl = None,
       defaultDurationMs = Num 300000, maxDurationMs = Num 600000\<rparr>
      \<lparr>url_duration = None, authorization = None\<rparr>
      \<lparr>getDuration = None\<rparr> \<lparr>now = ''1700000000000'', rand = ''k3x9qz''\<rparr>)
    = Num 300000
   \<and> durationMs (start_begin
      \<lparr>name = ''discord-gateway'', redisUrl = None,
       defaultDurationMs = Num 300000, maxDurationMs = Num 600000\<rparr>
      \<lparr>url_duration = Some [], authorization = None\<rparr>
      \<lparr>getDuration = None\<rparr> \<lparr>now = ''1700000000000'', rand = ''k3x9qz''\<rparr>)
    = Num 300000
   \<and> durationMs (start_begin
      \<lparr>name = ''discord-gateway'', redisUrl = None,
       defaultDurationMs = Num 300000, maxDurationMs = Num 600000\<rparr>
      \<lparr>url_duration = Some ''100000'', authorization = None\<rparr>
      \<lparr>getDuration = Some (\<lambda>r. Some (Num 42))\<rparr>
      \<lparr>now = ''1700000000000'', rand = ''k3x9qz''\<rparr>)
    = Num 42
   \<and> durationMs (start_begin
      \<lparr>name = ''discord-gateway'', redisUrl = None,
       defaultDurationMs = Num 300000, maxDurationMs = Num 600000\<rparr>
      \<lparr>url_duration = Some ''100000'', authorization = None\<rparr>
      \<lparr>getDuration = Some (\<lambda>r. None)\<rparr>
      \<lparr>now = ''1700000000000'', rand = ''k3x9qz''\<rparr>)
    = Num 300000"
  using
    start_effective_duration
      [of "\<lparr>getDuration = None\<rparr>" _
        "\<lparr>url_duration = Some ''100000'', authorization = None\<rparr>" _
        "\<lparr>name = ''discord-gateway'', redisUrl = None,
         defaultDurationMs = Num 300000, maxDurationMs = Num 600000\<rparr>"
        "\<lparr>now = ''1700000000000'', rand = ''k3x9qz''\<rparr>" "''100000''" 100000 600000
        300000]
    start_effective_duration
      [of "\<lparr>getDuration = None\<rparr>" _
        "\<lparr>url_duration = Some ''999999999'', authorization = None\<rparr>" _
        "\<lparr>name = ''discord-gateway'', redisUrl = None,
         defaultDurationMs = Num 300000, maxDurationMs = Num 600000\<rparr>"
        "\<lparr>now = ''1700000000000'', rand = ''k3x9qz''\<rparr>" "''999999999''" 999999999
        600000 300000]
    start_effective_duration
      [of "\<lparr>getDuration = None\<rparr>" _
        "\<lparr>url_duration = None, authorization = None\<rparr>" _
        "\<lparr>name = ''discord-gateway'', redisUrl = None,
         defaultDurationMs = Num 300000, maxDurationMs = Num 600000\<rparr>"
        "\<lparr>now = ''1700000000000'', rand = ''k3x9qz''\<rparr>" _ _ 600000 300000]
    start_effective_duration
      [of "\<lparr>getDuration = None\<rparr>" _
        "\<lparr>url_duration = Some [], authorization = None\<rparr>" _
        "\<lparr>name = ''discord-gateway'', redisUrl = None,
         defaultDurationMs = Num 300000, maxDurationMs = Num 600000\<rparr>"
        "\<lparr>now = ''1700000000000'', rand = ''k3x9qz''\<rparr>" _ _ 600000 300000]
    start_effective_duration
      [of "\<lparr>getDuration = Some (\<lambda>r. Some (Num 42))\<rparr>" "\<lambda>r. Some (Num 42)"
        "\<lparr>url_duration = Some ''100000'', authorization = None\<rparr>" "Num 42"
        "\<lparr>name = ''discord-gateway'', redisUrl = None,
         defaultDurationMs = Num 300000, maxDurationMs = Num 600000\<rparr>"
        "\<lparr>now = ''1700000000000'', rand = ''k3x9qz''\<rparr>" _ 42 600000 300000]
    start_effective_duration
      [of "\<lparr>getDuration = Some (\<lambda>r. None)\<rparr>" "\<lambda>r. None"
        "\<lparr>url_duration = Some ''100000'', authorization = None\<rparr>" _
        "\<lparr>name = ''discord-gateway'', redisUrl = None,
         defaultDurationMs = Num 300000, maxDurationMs = Num 600000\<rparr>"
        "\<lparr>now = ''1700000000000'', rand = ''k3x9qz''\<rparr>" _ _ 600000 300000]
  by (simp add: parseInt_100000 parseInt_999999999)

lemma parseInt_neg5: "Number_parseInt ''-5'' = Num (- 5)"
  by (simp add: Number_parseInt_def is_white_def is_digit_def digits_value_def digit_val_def)

lemma parseInt_abc: "Number_parseInt ''abc'' = NaN"
  by (simp add: Number_parseInt_def is_white_def is_digit_def digits_value_def digit_val_def)

text \<open>
  The duration has no lower clamp: \<^verbatim>\<open>?duration=-5\<close> gives \<open>-5\<close>, below zero, and
  \<^verbatim>\<open>?duration=abc\<close> gives \<^verbatim>\<open>NaN\<close>, with the gateway's configuration of 600000 for
  both the default and the maximum.
\<close>

theorem negative_duration_counterexample:
  "durationMs (start_begin
      \<lparr>name = ''discord-gateway'', redisUrl = None,
       defaultDurationMs = Num 600000, maxDurationMs = Num 600000\<rparr>
      \<lparr>url_duration = Some ''-5'', authorization = None\<rparr>
      \<lparr>getDuration = None\<rparr> \<lparr>now = ''1700000000000'', rand = ''k3x9qz''\<rparr>)
     = Num (- 5)
   \<and> durationMs (start_begin
      \<lparr>name = ''discord-gateway'', redisUrl = None,
       defaultDurationMs = Num 600000, maxDurationMs = Num 600000\<rparr>
      \<lparr>url_duration = Some ''abc'', authorization = None\<rparr>
      \<lparr>getDuration = None\<rparr> \<lparr>now = ''1700000000000'', rand = ''k3x9qz''\<rparr>)
     = NaN"
  by (simp add: durationMs_start_begin effectiveDuration_def requestedDuration_def truthy_def
      parseInt_neg5 parseInt_abc)

text \<open>
  C8, as the code has it. Without \<^verbatim>\<open>getDuration\<close>, a non-empty \<^verbatim>\<open>duration\<close> parameter is
  read by \<^verbatim>\<open>Number.parseInt\<close>. A requested duration that is a number \<open>d\<close> gives the
  effective duration \<open>min d m\<close> for the maximum \<open>m\<close>: never above \<open>m\<close>, at least zero when
  \<open>d\<close> and \<open>m\<close> are, and negative when \<open>d\<close> is. A request that does not parse to a number
  gives \<^verbatim>\<open>NaN\<close>.
\<close>

theorem start_duration_bounds:
  "(getDuration opts = None \<and> url_duration req = Some p \<and> p \<noteq> [] \<longrightarrow>
      requestedDuration opts req = Some (Number_parseInt p))
   \<and> (requestedDuration opts req = Some (Num d) \<and> maxDurationMs cfg = Num m \<longrightarrow>
      durationMs (start_begin cfg req opts env) = Num (min d m)
      \<and> min d m \<le> m
      \<and> (0 \<le> d \<and> 0 \<le> m \<longrightarrow> 0 \<le> min d m)
      \<and> (d < 0 \<longrightarrow> min d m < 0))
   \<and> (requestedDuration opts req = Some NaN \<longrightarrow>
      durationMs (start_begin cfg req opts env) = NaN)"
  by (auto simp: durationMs_start_begin effectiveDuration_def requestedDuration_def truthy_def)

theorem start_duration_bounds_witness:
  "durationMs (start_begin
      \<lparr>name = ''discord-gateway'', redisUrl = None,
       defaultDurationMs = Num 600000, maxDurationMs = Num 600000\<rparr>
      \<lparr>url_duration = Some ''100000'', authorization = None\<rparr>
      \<lparr>getDuration = None\<rparr> \<lparr>now = ''1700000000000'', rand = ''k3x9qz''\<rparr>)
    = Num 100000
   \<and> durationMs (start_begin
      \<lparr>name = ''discord-gateway'', redisUrl = None,
       defaultDurationMs = Num 600000, maxDurationMs = Num 600000\<rparr>
      \<lparr>url_duration = Some ''-5'', authorization = None\<rparr>
      \<lparr>getDuration = None\<rparr> \<lparr>now = ''1700000000000'', rand = ''k3x9qz''\<rparr>)
    = Num (min (- 5) 600000)
   \<and> durationMs (start_begin
      \<lparr>name = ''discord-gateway'', redisUrl = None,
       defaultDurationMs = Num 600000, maxDurationMs = Num 600000\<rparr>
      \<lparr>url_duration = Some ''abc'', authorization = None\<rparr>
      \<lparr>getDuration = None\<rparr> \<lparr>now = ''1700000000000'', rand = ''k3x9qz''\<rparr>)
    = NaN"
  using
    start_duration_bounds
      [of "\<lparr>getDuration = None\<rparr>"
        "\<lparr>url_duration = Some ''100000'', authorization = None\<rparr>" "''100000''" 100000
        "\<lparr>name = ''discord-gateway'', redisUrl = None,
         defaultDurationMs = Num 600000, maxDurationMs = Num 600000\<rparr>"
        600000 "\<lparr>now = ''1700000000000'', rand = ''k3x9qz''\<rparr>"]
    start_duration_bounds
      [of "\<lparr>getDuration = None\<rparr>"
        "\<lparr>url_duration = Some ''-5'', authorization = None\<rparr>" "''-5''" "- 5"
        "\<lparr>name = ''discord-gateway'', redisUrl = None,
         defaultDurationMs = Num 600000, maxDurationMs = Num 600000\<rparr>"
        600000 "\<lparr>now = ''1700000000000'', rand = ''k3x9qz''\<rparr>"]
    start_duration_bounds
      [of "\<lparr>getDuration = None\<rparr>"
        "\<lparr>url_duration = Some ''abc'', authorization = None\<rparr>" "''abc''" 0
        "\<lparr>name = ''discord-gateway'', redisUrl = None,
         defaultDurationMs = Num 600000, maxDurationMs = Num 600000\<rparr>"
        600000 "\<lparr>now = ''1700000000000'', rand = ''k3x9qz''\<rparr>"]
  by (simp add: parseInt_100000 parseInt_neg5 parseInt_abc)

section \<open>What a step keeps and what settles the promise of start\<close>

lemmas machine_defs = catch_error_def enter_finally_def on_message_def abort_def
      resolve_wait_def begin_wait_def

lemma listener_name_step [simp]: "listener_name (step ev s) = listener_name s"
  by (cases ev) (auto simp: machine_defs split: option.splits)

lemma listenerId_step [simp]: "listenerId (step ev s) = listenerId s"
  by (cases ev) (auto simp: machine_defs split: option.splits)

lemma channel_step [simp]: "channel (step ev s) = channel s"
  by (cases ev) (auto simp: machine_defs split: option.splits)

lemma listener_name_exec [simp]: "listener_name (exec evs s) = listener_name s"
  by (induction evs arbitrary: s) auto

lemma listenerId_exec [simp]: "listenerId (exec evs s) = listenerId s"
  by (induction evs arbitrary: s) auto

lemma exec_append: "exec (xs @ ys) s = exec ys (exec xs s)"
  by (induction xs arbitrary: s) auto

lemma main_step_other: "\<not> is_run_event ev \<Longrightarrow> main (step ev s) = main s"
  by (cases ev) (auto simp: is_run_event_def machine_defs split: option.splits)

lemma main_step_settled: "main s \<noteq> AwaitRun \<Longrightarrow> main (step ev s) = main s"
  by (cases ev) (auto simp: machine_defs split: option.splits)

lemma main_exec_settled: "main s \<noteq> AwaitRun \<Longrightarrow> main (exec evs s) = main s"
  by (induction evs arbitrary: s) (auto simp: main_step_settled)

lemma main_exec_other:
  "\<forall>ev\<in>set evs. \<not> is_run_event ev \<Longrightarrow> main (exec evs s) = main s"
  by (induction evs arbitrary: s) (auto simp: main_step_other)

lemma main_step:
  "main (step ev s) =
     (if main s = AwaitRun
      then (case ev of
              RunResolved r \<Rightarrow> Returned r
            | RunRejected e \<Rightarrow> Returned (error_response (listener_name s) e)
            | _ \<Rightarrow> AwaitRun)
      else main s)"
  by (cases ev) (auto simp: machine_defs split: option.splits)

lemma main_step_cong:
  "main t = main s \<Longrightarrow> listener_name t = listener_name s \<Longrightarrow>
   main (step ev t) = main (step ev s)"
  by (simp only: main_step)

lemma main_exec_cong:
  "main t = main s \<Longrightarrow> listener_name t = listener_name s \<Longrightarrow>
   main (exec evs t) = main (exec evs s)"
proof (induction evs arbitrary: s t)
  case Nil
  then show ?case by simp
next
  case (Cons ev evs)
  have a: "main (step ev t) = main (step ev s)"
    using Cons.prems by (rule main_step_cong)
  have b: "listener_name (step ev t) = listener_name (step ev s)"
    using Cons.prems by simp
  show ?case
    using Cons.IH [OF a b] by simp
qed

lemma main_exec_filter:
  "main (exec evs s) = main (exec (filter is_run_event evs) s)"
proof (induction evs arbitrary: s)
  case Nil
  show ?case by simp
next
  case (Cons ev evs)
  show ?case
  proof (cases "is_run_event ev")
    case True
    then show ?thesis using Cons.IH [of "step ev s"] by simp
  next
    case False
    have "main (exec evs (step ev s)) = main (exec (filter is_run_event evs) (step ev s))"
      by (rule Cons.IH)
    also have "\<dots> = main (exec (filter is_run_event evs) s)"
      by (rule main_exec_cong) (simp_all add: main_step_other False)
    finally show ?thesis using False by simp
  qed
qed

lemma main_exec_rejected:
  assumes "\<forall>ev\<in>set evs. \<not> is_run_event ev" and "main s = AwaitRun"
  shows "main (exec (evs @ RunRejected e # evs') s) = Returned (error_response (listener_name s) e)"
proof -
  have "main (exec evs s) = AwaitRun"
    using assms by (simp add: main_exec_other)
  then have "main (step (RunRejected e) (exec evs s)) = Returned (error_response (listener_name s) e)"
    by simp
  then show ?thesis
    by (simp add: exec_append main_exec_settled)
qed

lemma main_exec_resolved:
  assumes "\<forall>ev\<in>set evs. \<not> is_run_event ev" and "main s = AwaitRun"
  shows "main (exec (evs @ RunResolved r # evs') s) = Returned r"
proof -
  have "main (exec evs s) = AwaitRun"
    using assms by (simp add: main_exec_other)
  then have "main (step (RunResolved r) (exec evs s)) = Returned r"
    by simp
  then show ?thesis
    by (simp add: exec_append main_exec_settled)
qed

lemma main_step_not_Threw: "main s \<noteq> Threw x \<Longrightarrow> main (step ev s) \<noteq> Threw x"
  by (auto simp: main_step simp del: step.simps split: event.splits)

lemma main_exec_not_Threw: "main s \<noteq> Threw x \<Longrightarrow> main (exec evs s) \<noteq> Threw x"
  by (induction evs arbitrary: s) (auto simp: main_step_not_Threw)

lemma start_begin_fields [simp]:
  "main (start_begin cfg req opts env) = AwaitRun"
  "listener_name (start_begin cfg req opts env) = name cfg"
  "aborted (start_begin cfg req opts env) = False"
  "subscribed (start_begin cfg req opts env) = False"
  "timer (start_begin cfg req opts env) = None"
  "abort_listener (start_begin cfg req opts env) = False"
  "listenerId (start_begin cfg req opts env) = name cfg @ ''-'' @ now env @ ''-'' @ rand env"
  "channel (start_begin cfg req opts env) = ''persistent-listener:'' @ name cfg @ '':control''"
  by (simp_all add: start_begin_def Let_def setupRedisPubSub_begin_def)

section \<open>Errors of the run function\<close>




section \<open>The subscription callback and the abort signal\<close>

text \<open>
  C2. A message equal to the session's own \<^verbatim>\<open>listenerId\<close> changes nothing: the callback
  returns at once, so the signal is not fired, whatever state the session is in.
\<close>

theorem own_announcement_ignored:
  "on_message (listenerId s) s = s \<and> step (Message (listenerId s)) s = s"
  by (simp add: on_message_def)

lemma abort_fires_only_on_foreign_message:
  "\<not> aborted s \<Longrightarrow> aborted (step ev s) \<Longrightarrow>
   \<exists>m. ev = Message m \<and> m \<noteq> listenerId s \<and> subscribed s"
  by (cases ev) (auto simp: machine_defs split: option.splits if_splits)

lemma aborted_exec_message:
  "\<not> aborted s \<Longrightarrow> aborted (exec evs s) \<Longrightarrow>
   \<exists>m. Message m \<in> set evs \<and> m \<noteq> listenerId s"
proof (induction evs arbitrary: s)
  case Nil
  then show ?case by simp
next
  case (Cons ev evs)
  show ?case
  proof (cases "aborted (step ev s)")
    case True
    with Cons.prems(1) obtain m where "ev = Message m" "m \<noteq> listenerId s"
      using abort_fires_only_on_foreign_message by blast
    then show ?thesis by auto
  next
    case False
    from Cons.prems(2) have "aborted (exec evs (step ev s))" by simp
    with False obtain m where "Message m \<in> set evs" "m \<noteq> listenerId (step ev s)"
      using Cons.IH by blast
    then show ?thesis by auto
  qed
qed

lemma uncoordinated_step: "uncoordinated s \<Longrightarrow> uncoordinated (step ev s)"
  by (cases ev) (auto simp: uncoordinated_def machine_defs split: option.splits)

lemma uncoordinated_exec: "uncoordinated s \<Longrightarrow> uncoordinated (exec evs s)"
  by (induction evs arbitrary: s) (auto simp: uncoordinated_step)

lemma uncoordinated_start:
  "\<not> truthy (redisUrl cfg) \<Longrightarrow> uncoordinated (start_begin cfg req opts env)"
  by (simp add: uncoordinated_def start_begin_def Let_def)

text \<open>
  C10. A step fires the signal only if it is the delivery, to a registered subscription
  callback, of a message different from the session's own id; so a signal that has fired
  after a run of events was fired by such a message. Without a truthy \<^verbatim>\<open>redisUrl\<close>
  nothing is handed to \<^verbatim>\<open>afterTask\<close>, no Redis command is ever issued, the signal never
  fires, and the promise of \<^verbatim>\<open>start\<close> depends on the settling of \<^verbatim>\<open>run\<close> alone.
\<close>

theorem signal_fired_only_by_foreign_message:
  "(\<not> aborted s \<and> aborted (step ev s) \<longrightarrow>
      (\<exists>m. ev = Message m \<and> m \<noteq> listenerId s \<and> subscribed s))
   \<and> (aborted (exec evs (start_begin cfg req opts env)) \<longrightarrow>
      (\<exists>m. Message m \<in> set evs
          \<and> m \<noteq> listenerId (start_begin cfg req opts env)))
   \<and> (\<not> truthy (redisUrl cfg) \<longrightarrow>
      scheduled (start_begin cfg req opts env) = 0
      \<and> side (exec evs (start_begin cfg req opts env)) = None
      \<and> cmds (exec evs (start_begin cfg req opts env)) = []
      \<and> \<not> aborted (exec evs (start_begin cfg req opts env))
      \<and> main (exec evs (start_begin cfg req opts env))
          = main (exec (filter is_run_event evs) (start_begin cfg req opts env)))"
proof (intro conjI impI)
  assume "\<not> aborted s \<and> aborted (step ev s)"
  then show "\<exists>m. ev = Message m \<and> m \<noteq> listenerId s \<and> subscribed s"
    using abort_fires_only_on_foreign_message by blast
next
  assume "aborted (exec evs (start_begin cfg req opts env))"
  then show "\<exists>m. Message m \<in> set evs \<and> m \<noteq> listenerId (start_begin cfg req opts env)"
    using aborted_exec_message [of "start_begin cfg req opts env" evs] by simp
next
  assume h: "\<not> truthy (redisUrl cfg)"
  then show "scheduled (start_begin cfg req opts env) = 0"
    using uncoordinated_start [of cfg req opts env] by (simp add: uncoordinated_def)
  have u: "uncoordinated (exec evs (start_begin cfg req opts env))"
    using h by (simp add: uncoordinated_start uncoordinated_exec)
  show "side (exec evs (start_begin cfg req opts env)) = None"
    using u by (simp add: uncoordinated_def)
  show "cmds (exec evs (start_begin cfg req opts env)) = []"
    using u by (simp add: uncoordinated_def)
  show "\<not> aborted (exec evs (start_begin cfg req opts env))"
    using u by (simp add: uncoordinated_def)
  show "main (exec evs (start_begin cfg req opts env))
      = main (exec (filter is_run_event evs) (start_begin cfg req opts env))"
    by (rule main_exec_filter)
qed

lemmas eval_defs = start_begin_def setupRedisPubSub_begin_def truthy_def Let_def
  effectiveDuration_def requestedDuration_def machine_defs

lemmas example_defs = example_config_def example_request_def session_A_def session_B_def
  session_without_redis_def ok_response_def

theorem signal_fired_only_by_foreign_message_witness:
  "aborted (step (Message (listenerId session_B))
       (exec [ConnectSettled None, SubscribeSettled None] session_A))
   \<and> Message (listenerId session_B)
        \<in> set [ConnectSettled None, SubscribeSettled None, Message (listenerId session_B)]
   \<and> scheduled session_without_redis = 0
   \<and> \<not> aborted (exec [ConnectSettled None, SubscribeSettled None,
         Message (listenerId session_B), TimerFired, RunResolved ok_response]
         session_without_redis)
   \<and> main (exec [ConnectSettled None, SubscribeSettled None,
         Message (listenerId session_B), TimerFired, RunResolved ok_response]
         session_without_redis) = Returned ok_response"
  using signal_fired_only_by_foreign_message
    [of "exec [ConnectSettled None, SubscribeSettled None] session_A"
      "Message (listenerId session_B)"
      "[ConnectSettled None, SubscribeSettled None, Message (listenerId session_B)]"
      example_config example_request "\<lparr>getDuration = None\<rparr>"
      "\<lparr>now = ''1700000000000'', rand = ''k3x9qz''\<rparr>"]
    signal_fired_only_by_foreign_message
    [of "exec [ConnectSettled None, SubscribeSettled None] session_A"
      "Message (listenerId session_B)"
      "[ConnectSettled None, SubscribeSettled None, Message (listenerId session_B),
        TimerFired, RunResolved ok_response]"
      "example_config\<lparr>redisUrl := None\<rparr>" example_request "\<lparr>getDuration = None\<rparr>"
      "\<lparr>now = ''1700000000000'', rand = ''k3x9qz''\<rparr>"]
  by (simp add: example_defs eval_defs is_run_event_def)

section \<open>The final wait of the coordination task\<close>

text \<open>
  A wait that begins with the signal not yet fired ends at the first message from another
  listener or at the timer. A wait that begins after the signal has fired is ended by the
  timer alone: the listener added to an aborted signal is never called.
\<close>

lemma wait_ends_at_abort_or_timer:
  assumes "side s = Some Waiting" and "abort_listener s" and "\<not> aborted s"
    and "subscribed s" and "timer s = Some d"
  shows "m \<noteq> listenerId s \<Longrightarrow> side (step (Message m) s) = Some Unsubscribing"
    and "side (step TimerFired s) = Some Unsubscribing"
  using assms by (simp_all add: machine_defs)

lemma wait_after_abort_stays:
  assumes "side s = Some Waiting" and "aborted s" and "ev \<noteq> TimerFired"
  shows "side (step ev s) = Some Waiting \<and> aborted (step ev s)"
  using assms by (cases ev) (auto simp: machine_defs split: option.splits)

text \<open>
  C9 at a concrete run. Invocation \<open>A\<close> receives the announcement of \<open>B\<close> while its own
  \<^verbatim>\<open>publish\<close> is in flight, so the signal has fired when the wait begins. The wait is
  then still pending, with a timer of 605000 ms, also after two more foreign messages; it
  ends when the timer fires. Had the same message arrived after the wait began, the wait
  would have ended with it.
\<close>

theorem wait_after_early_abort_runs_to_timeout:
  "aborted (exec [ConnectSettled None, SubscribeSettled None,
                  Message (listenerId session_B), PublishSettled None] session_A)
   \<and> side (exec [ConnectSettled None, SubscribeSettled None,
                  Message (listenerId session_B), PublishSettled None] session_A)
       = Some Waiting
   \<and> timer (exec [ConnectSettled None, SubscribeSettled None,
                  Message (listenerId session_B), PublishSettled None] session_A)
       = Some (Num 605000)
   \<and> side (exec [ConnectSettled None, SubscribeSettled None,
                  Message (listenerId session_B), PublishSettled None,
                  Message (listenerId session_B), Message ''discord-gateway-1700000000500-m2n4b6'']
            session_A)
       = Some Waiting
   \<and> side (exec [ConnectSettled None, SubscribeSettled None,
                  Message (listenerId session_B), PublishSettled None, TimerFired] session_A)
       = Some Unsubscribing
   \<and> side (exec [ConnectSettled None, SubscribeSettled None, PublishSettled None,
                  Message (listenerId session_B)] session_A)
       = Some Unsubscribing"
  by (simp add: example_defs eval_defs)

section \<open>Failures of the coordination store\<close>

lemma failed_connect_finishes:
  assumes "side s = Some Connecting"
  shows "side (exec [ConnectSettled (Some e), UnsubscribeSettled u, QuitSettled p q] s)
           = Some Finished"
    and "LogPubSubError e \<in> set (log (exec [ConnectSettled (Some e), UnsubscribeSettled u,
           QuitSettled p q] s))"
  using assms by (simp_all add: machine_defs)

lemma failed_subscribe_finishes:
  assumes "side s = Some Connecting"
  shows "side (exec [ConnectSettled None, SubscribeSettled (Some e), UnsubscribeSettled u,
           QuitSettled p q] s) = Some Finished"
    and "LogPubSubError e \<in> set (log (exec [ConnectSettled None, SubscribeSettled (Some e),
           UnsubscribeSettled u, QuitSettled p q] s))"
  using assms by (simp_all add: machine_defs)

lemma failed_publish_finishes:
  assumes "side s = Some Connecting"
  shows "side (exec [ConnectSettled None, SubscribeSettled None, PublishSettled (Some e),
           UnsubscribeSettled u, QuitSettled p q] s) = Some Finished"
    and "LogPubSubError e \<in> set (log (exec [ConnectSettled None, SubscribeSettled None,
           PublishSettled (Some e), UnsubscribeSettled u, QuitSettled p q] s))"
  using assms by (simp_all add: machine_defs)

lemma side_start_begin:
  "truthy (redisUrl cfg) \<Longrightarrow> side (start_begin cfg req opts env) = Some Connecting"
  by (simp add: start_begin_def Let_def setupRedisPubSub_begin_def)

text \<open>
  C6. With a Redis URL configured, whatever the coordination task meets: the promise of
  \<^verbatim>\<open>start\<close> depends on the settling of \<^verbatim>\<open>run\<close> alone and is never rejected; once
  \<^verbatim>\<open>run\<close> settles, \<^verbatim>\<open>start\<close> returns the response of \<^verbatim>\<open>run\<close> or the 500 response
  for its error. A rejected \<^verbatim>\<open>connect\<close>, \<^verbatim>\<open>subscribe\<close> or \<^verbatim>\<open>publish\<close> is logged, and
  the task runs its cleanup to the end whether \<^verbatim>\<open>unsubscribe\<close> and \<^verbatim>\<open>quit\<close> succeed
  or fail.
\<close>

theorem coordination_failure_is_contained:
  assumes "truthy (redisUrl cfg)"
  shows "main (exec evs (start_begin cfg req opts env))
           = main (exec (filter is_run_event evs) (start_begin cfg req opts env))
     \<and> main (exec evs (start_begin cfg req opts env)) \<noteq> Threw x
     \<and> ((\<forall>ev\<in>set evs. \<not> is_run_event ev) \<longrightarrow>
          main (exec (evs @ RunResolved r # evs') (start_begin cfg req opts env)) = Returned r
          \<and> main (exec (evs @ RunRejected e' # evs') (start_begin cfg req opts env))
              = Returned (error_response (name cfg) e'))
     \<and> side (exec [ConnectSettled (Some e), UnsubscribeSettled u, QuitSettled p q]
          (start_begin cfg req opts env)) = Some Finished
     \<and> LogPubSubError e \<in> set (log (exec [ConnectSettled (Some e), UnsubscribeSettled u,
          QuitSettled p q] (start_begin cfg req opts env)))
     \<and> side (exec [ConnectSettled None, SubscribeSettled (Some e), UnsubscribeSettled u,
          QuitSettled p q] (start_begin cfg req opts env)) = Some Finished
     \<and> LogPubSubError e \<in> set (log (exec [ConnectSettled None, SubscribeSettled (Some e),
          UnsubscribeSettled u, QuitSettled p q] (start_begin cfg req opts env)))
     \<and> side (exec [ConnectSettled None, SubscribeSettled None, PublishSettled (Some e),
          UnsubscribeSettled u, QuitSettled p q] (start_begin cfg req opts env)) = Some Finished
     \<and> LogPubSubError e \<in> set (log (exec [ConnectSettled None, SubscribeSettled None,
          PublishSettled (Some e), UnsubscribeSettled u, QuitSettled p q]
          (start_begin cfg req opts env)))"
proof -
  let ?s0 = "start_begin cfg req opts env"
  have c: "side ?s0 = Some Connecting"
    using assms by (rule side_start_begin)
  have m: "main ?s0 = AwaitRun" by simp
  have 1: "main (exec evs ?s0) = main (exec (filter is_run_event evs) ?s0)"
    by (rule main_exec_filter)
  have 2: "main (exec evs ?s0) \<noteq> Threw x"
    by (rule main_exec_not_Threw) simp
  have 3: "(\<forall>ev\<in>set evs. \<not> is_run_event ev) \<longrightarrow>
      main (exec (evs @ RunResolved r # evs') ?s0) = Returned r
      \<and> main (exec (evs @ RunRejected e' # evs') ?s0) = Returned (error_response (name cfg) e')"
    using main_exec_resolved [of evs ?s0 r evs'] main_exec_rejected [of evs ?s0 e' evs']
    by simp
  note 4 = failed_connect_finishes [OF c, of e u p q]
  note 5 = failed_subscribe_finishes [OF c, of e u p q]
  note 6 = failed_publish_finishes [OF c, of e u p q]
  show ?thesis
    using 1 2 3 4 5 6 by blast
qed

theorem coordination_failure_is_contained_witness:
  "main (exec [ConnectSettled (Some (JsError ''ECONNREFUSED'')),
               UnsubscribeSettled (Some (JsError ''The client is closed'')),
               RunResolved ok_response,
               QuitSettled (Some (JsError ''The client is closed'')) None] session_A)
     = Returned ok_response
   \<and> side (exec [ConnectSettled (Some (JsError ''ECONNREFUSED'')),
               UnsubscribeSettled (Some (JsError ''The client is closed'')),
               QuitSettled (Some (JsError ''The client is closed'')) None] session_A)
     = Some Finished"
  using coordination_failure_is_contained
    [of example_config
      "[ConnectSettled (Some (JsError ''ECONNREFUSED'')),
        UnsubscribeSettled (Some (JsError ''The client is closed''))]"
      example_request "\<lparr>getDuration = None\<rparr>"
      "\<lparr>now = ''1700000000000'', rand = ''k3x9qz''\<rparr>"
      "JsError ''never''" ok_response
      "[QuitSettled (Some (JsError ''The client is closed'')) None]"
      "JsError ''unused''"
      "JsError ''ECONNREFUSED''" "Some (JsError ''The client is closed'')"
      "Some (JsError ''The client is closed'')" None]
  by (simp add: example_defs eval_defs is_run_event_def)

section \<open>Order of subscribe and publish\<close>


lemma window_inv_step: "window_inv s \<Longrightarrow> window_inv (step ev s)"
  by (cases ev) (auto simp: window_inv_def machine_defs split: option.splits if_splits)


lemma window_inv_start: "window_inv (start_begin cfg req opts env)"
  by (simp add: window_inv_def start_begin_def Let_def setupRedisPubSub_begin_def)

lemma foreign_message_fires:
  "subscribed s \<Longrightarrow> m \<noteq> listenerId s \<Longrightarrow> aborted (step (Message m) s)"
  by (simp add: machine_defs)



section \<open>Invocations on one channel\<close>

lemma session_inv_step: "session_inv s \<Longrightarrow> session_inv (step ev s)"
  by (simp add: session_inv_def window_inv_step)

lemma session_inv_start: "session_inv (start_begin cfg req opts env)"
  by (simp add: session_inv_def window_inv_start)

lemma sessions_broadcast [simp]: "sessions (broadcast j S) = sessions S"
  by (simp add: broadcast_def)

lemma stores_broadcast [simp]: "stores (broadcast j S) = stores S"
  by (simp add: broadcast_def)

lemma sessions_update_inv:
  assumes "\<forall>s\<in>set ss. session_inv s" and "i < length ss"
  shows "\<forall>s\<in>set (ss[i := step ev (ss ! i)]). session_inv s"
proof -
  have "session_inv (step ev (ss ! i))"
    using assms by (simp add: session_inv_step)
  then show ?thesis
    using assms(1) set_update_subset_insert [of ss i "step ev (ss ! i)"] by auto
qed

lemma sys_inv_step:
  assumes "\<forall>s\<in>set (sessions S). session_inv s"
  shows "\<forall>s\<in>set (sessions (sys_step e S)). session_inv s"
proof (cases e)
  case (Start cfg req opts env)
  then show ?thesis using assms by (simp add: session_inv_start)
next
  case (At i ev)
  show ?thesis
  proof (cases "i < length (sessions S)")
    case False
    then show ?thesis using assms At by simp
  next
    case True
    have "\<forall>s\<in>set ((sessions S)[i := step ev (sessions S ! i)]). session_inv s"
      using assms True by (rule sessions_update_inv)
    then show ?thesis using At True by (simp add: Let_def)
  qed
next
  case (Broadcast j)
  then show ?thesis using assms by simp
next
  case (Deliver i m)
  show ?thesis
  proof (cases "i < length (sessions S) \<and> (i, m) \<in> set (in_flight S)")
    case False
    then show ?thesis using assms Deliver by auto
  next
    case True
    then have "\<forall>s\<in>set ((sessions S)[i := step (Message m) (sessions S ! i)]). session_inv s"
      using assms sessions_update_inv by blast
    then show ?thesis using Deliver True by (simp del: step.simps)
  qed
qed

lemma sys_inv_exec:
  "\<forall>s\<in>set (sessions S). session_inv s \<Longrightarrow>
   \<forall>s\<in>set (sessions (sys_exec es S)). session_inv s"
proof (induction es arbitrary: S)
  case Nil
  then show ?case by simp
next
  case (Cons e es)
  from Cons.prems have "\<forall>s\<in>set (sessions (sys_step e S)). session_inv s"
    by (rule sys_inv_step)
  then have "\<forall>s\<in>set (sessions (sys_exec es (sys_step e S))). session_inv s"
    by (rule Cons.IH)
  then show ?case by simp
qed

lemma sys_inv_reachable:
  "i < length (sessions (sys_exec es sys_init)) \<Longrightarrow>
   session_inv (sessions (sys_exec es sys_init) ! i)"
  using sys_inv_exec [of sys_init es] by (simp add: sys_init_def)

lemmas sys_defs = start_A_def start_B_def race_schedule_def handoff_schedule_def
  sys_init_def broadcast_def recipients_def

lemma sys_exec_append: "sys_exec (xs @ ys) S = sys_exec ys (sys_exec xs S)"
  by (induction xs arbitrary: S) auto

lemma recipient_queued:
  assumes "i < length (sessions S)" and "subscribed (sessions S ! i)"
    and "channel (sessions S ! i) = channel (sessions S ! j)"
    and "stores S ! i = stores S ! j"
  shows "(i, listenerId (sessions S ! j)) \<in> set (recipients S j)"
  using assms by (simp add: recipients_def)

lemma broadcast_queues:
  assumes "i < length (sessions S)" and "j < length (sessions S)"
    and "subscribed (sessions S ! i)"
    and "channel (sessions S ! i) = channel (sessions S ! j)"
    and "stores S ! i = stores S ! j"
    and "side (sessions S ! j) = Some Publishing" and "j \<notin> set (processed S)"
  shows "(i, listenerId (sessions S ! j)) \<in> set (in_flight (broadcast j S))"
  using assms recipient_queued [of i S j] by (simp add: broadcast_def)

lemma delivery_fires:
  assumes "i < length (sessions S)" and "(i, m) \<in> set (in_flight S)"
    and "subscribed (sessions S ! i)" and "m \<noteq> listenerId (sessions S ! i)"
  shows "aborted (sessions (sys_step (Deliver i m) S) ! i)"
proof -
  have "sessions (sys_step (Deliver i m) S) ! i = step (Message m) (sessions S ! i)"
    using assms(1,2) by (simp del: step.simps)
  moreover have "aborted (step (Message m) (sessions S ! i))"
    using assms(3,4) by (rule foreign_message_fires)
  ultimately show ?thesis by simp
qed

lemma same_name_same_channel:
  assumes "session_inv s" and "session_inv t" and "listener_name s = listener_name t"
  shows "channel s = channel t"
  using assms by (simp add: session_inv_def)

lemma announcement_sent_and_delivered:
  assumes "i < length (sessions S)" and "j < length (sessions S)"
    and "session_inv (sessions S ! i)" and "session_inv (sessions S ! j)"
    and "subscribed (sessions S ! i)"
    and "listener_name (sessions S ! i) = listener_name (sessions S ! j)"
    and "stores S ! i = stores S ! j"
    and "listenerId (sessions S ! i) \<noteq> listenerId (sessions S ! j)"
    and "side (sessions S ! j) = Some Publishing" and "j \<notin> set (processed S)"
  shows "(i, listenerId (sessions S ! j)) \<in> set (in_flight (broadcast j S))"
    and "aborted (sessions (sys_step (Deliver i (listenerId (sessions S ! j)))
           (broadcast j S)) ! i)"
proof -
  have ch: "channel (sessions S ! i) = channel (sessions S ! j)"
    using assms(3,4,6) by (rule same_name_same_channel)
  show q: "(i, listenerId (sessions S ! j)) \<in> set (in_flight (broadcast j S))"
    using assms(1,2,5) ch assms(7,9,10) by (rule broadcast_queues)
  have "aborted (sessions (sys_step (Deliver i (listenerId (sessions S ! j)))
      (broadcast j S)) ! i)"
  proof (rule delivery_fires)
    show "i < length (sessions (broadcast j S))" using assms(1) by simp
    show "(i, listenerId (sessions S ! j)) \<in> set (in_flight (broadcast j S))" by (rule q)
    show "subscribed (sessions (broadcast j S) ! i)" using assms(5) by simp
    show "listenerId (sessions S ! j) \<noteq> listenerId (sessions (broadcast j S) ! i)"
      using assms(8) by simp
  qed
  then show "aborted (sessions (sys_step (Deliver i (listenerId (sessions S ! j)))
           (broadcast j S)) ! i)" .
qed

section \<open>What a session observes of other sessions\<close>




section \<open>Handing over from one session to the next\<close>

text \<open>
  C4 as stated fails in \<open>handoff_schedule\<close>: the run function of \<open>B\<close> has returned its
  response while \<open>A\<close>, subscribed, has not been cancelled; the signal of \<open>A\<close> fires only
  later, when the coordination task of \<open>B\<close> has published and the announcement reaches
  \<open>A\<close>.
\<close>

theorem run_completes_before_announcement_counterexample:
  "main (sessions (sys_exec handoff_schedule sys_init) ! 1) = Returned ok_response
   \<and> subscribed (sessions (sys_exec handoff_schedule sys_init) ! 0)
   \<and> \<not> aborted (sessions (sys_exec handoff_schedule sys_init) ! 0)
   \<and> aborted (sessions (sys_exec (handoff_schedule
         @ [At 1 (ConnectSettled None), At 1 (SubscribeSettled None),
            At 1 (PublishSettled None), Deliver 0 (listenerId session_B)]) sys_init) ! 0)
   \<and> main (sessions (sys_exec (handoff_schedule
         @ [At 1 (ConnectSettled None), At 1 (SubscribeSettled None),
            At 1 (PublishSettled None), Deliver 0 (listenerId session_B)]) sys_init) ! 1)
       = Returned ok_response"
  by (simp add: sys_defs example_defs eval_defs)

text \<open>
  C4, as the code has it. Let \<open>A\<close> be started before \<open>B\<close> on the same listener name and
  the same Redis server, with different ids, \<open>A\<close> subscribed when the server processes the
  \<^verbatim>\<open>publish\<close> of \<open>B\<close> (on its own, or as a fulfilled \<^verbatim>\<open>publish\<close> call implies). Then the
  server sends the announcement of \<open>B\<close> to \<open>A\<close>, and its delivery to the subscription
  callback of \<open>A\<close> fires the signal of \<open>A\<close>: at once, and at any later moment at which
  the callback is still registered. Nothing here refers to the run function of \<open>B\<close>.
\<close>

theorem announcement_cancels_subscribed_session:
  assumes "a < length (sessions (sys_exec sched sys_init))"
    and "b < length (sessions (sys_exec sched sys_init))" and "a < b"
    and "listener_name (sessions (sys_exec sched sys_init) ! a)
         = listener_name (sessions (sys_exec sched sys_init) ! b)"
    and "stores (sys_exec sched sys_init) ! a = stores (sys_exec sched sys_init) ! b"
    and "listenerId (sessions (sys_exec sched sys_init) ! a)
         \<noteq> listenerId (sessions (sys_exec sched sys_init) ! b)"
    and "subscribed (sessions (sys_exec sched sys_init) ! a)"
    and "side (sessions (sys_exec sched sys_init) ! b) = Some Publishing"
    and "b \<notin> set (processed (sys_exec sched sys_init))"
  shows "(a, listenerId (sessions (sys_exec sched sys_init) ! b))
           \<in> set (in_flight (sys_exec (sched @ [Broadcast b]) sys_init))
     \<and> (a, listenerId (sessions (sys_exec sched sys_init) ! b))
           \<in> set (in_flight (sys_exec (sched @ [At b (PublishSettled None)]) sys_init))
     \<and> aborted (sessions (sys_exec
          (sched @ [Broadcast b,
                    Deliver a (listenerId (sessions (sys_exec sched sys_init) ! b))])
          sys_init) ! a)
     \<and> (a < length (sessions (sys_exec later sys_init))
          \<and> (a, msg) \<in> set (in_flight (sys_exec later sys_init))
          \<and> subscribed (sessions (sys_exec later sys_init) ! a)
          \<and> msg \<noteq> listenerId (sessions (sys_exec later sys_init) ! a) \<longrightarrow>
         aborted (sessions (sys_exec (later @ [Deliver a msg]) sys_init) ! a))"
proof -
  let ?S = "sys_exec sched sys_init"
  have ia: "session_inv (sessions ?S ! a)" using assms(1) by (rule sys_inv_reachable)
  have ib: "session_inv (sessions ?S ! b)" using assms(2) by (rule sys_inv_reachable)
  note sent = announcement_sent_and_delivered
    [OF assms(1,2) ia ib assms(7) assms(4) assms(5) assms(6) assms(8) assms(9)]
  have 1: "(a, listenerId (sessions ?S ! b))
      \<in> set (in_flight (sys_exec (sched @ [Broadcast b]) sys_init))"
    using sent(1) by (simp add: sys_exec_append)
  have 2: "(a, listenerId (sessions ?S ! b))
      \<in> set (in_flight (sys_exec (sched @ [At b (PublishSettled None)]) sys_init))"
    using sent(1) assms(2) by (simp add: sys_exec_append Let_def)
  have 3: "aborted (sessions (sys_exec
      (sched @ [Broadcast b, Deliver a (listenerId (sessions ?S ! b))]) sys_init) ! a)"
    using sent(2) by (simp add: sys_exec_append del: sys_step.simps(4))
  have 4: "a < length (sessions (sys_exec later sys_init))
      \<and> (a, msg) \<in> set (in_flight (sys_exec later sys_init))
      \<and> subscribed (sessions (sys_exec later sys_init) ! a)
      \<and> msg \<noteq> listenerId (sessions (sys_exec later sys_init) ! a) \<longrightarrow>
     aborted (sessions (sys_exec (later @ [Deliver a msg]) sys_init) ! a)"
    using delivery_fires [of a "sys_exec later sys_init" msg]
    by (simp add: sys_exec_append del: sys_step.simps(4))
  show ?thesis
    using 1 2 3 4 by blast
qed

theorem announcement_cancels_subscribed_session_witness:
  "(0, listenerId session_B)
      \<in> set (in_flight (sys_exec ([start_A, At 0 (ConnectSettled None),
          At 0 (SubscribeSettled None), At 0 (PublishSettled None), start_B,
          At 1 (ConnectSettled None), At 1 (SubscribeSettled None)]
          @ [At 1 (PublishSettled None)]) sys_init))
   \<and> aborted (sessions (sys_exec ([start_A, At 0 (ConnectSettled None),
          At 0 (SubscribeSettled None), At 0 (PublishSettled None), start_B,
          At 1 (ConnectSettled None), At 1 (SubscribeSettled None)]
          @ [Broadcast 1, Deliver 0 (listenerId session_B)]) sys_init) ! 0)
   \<and> aborted (sessions (sys_exec ([start_A, At 0 (ConnectSettled None),
          At 0 (SubscribeSettled None), At 0 (PublishSettled None), start_B,
          At 1 (ConnectSettled None), At 1 (SubscribeSettled None),
          At 1 (PublishSettled None), At 1 (RunResolved ok_response)]
          @ [Deliver 0 (listenerId session_B)]) sys_init) ! 0)"
proof -
  let ?sched = "[start_A, At 0 (ConnectSettled None), At 0 (SubscribeSettled None),
        At 0 (PublishSettled None), start_B, At 1 (ConnectSettled None),
        At 1 (SubscribeSettled None)]"
  let ?later = "[start_A, At 0 (ConnectSettled None), At 0 (SubscribeSettled None),
        At 0 (PublishSettled None), start_B, At 1 (ConnectSettled None),
        At 1 (SubscribeSettled None), At 1 (PublishSettled None),
        At 1 (RunResolved ok_response)]"
  have 1: "0 < length (sessions (sys_exec ?sched sys_init))"
    by (simp add: sys_defs example_defs eval_defs)
  have 2: "1 < length (sessions (sys_exec ?sched sys_init))"
    by (simp add: sys_defs example_defs eval_defs)
  have 3: "(0::nat) < 1" by simp
  have 4: "listener_name (sessions (sys_exec ?sched sys_init) ! 0)
      = listener_name (sessions (sys_exec ?sched sys_init) ! 1)"
    by (simp add: sys_defs example_defs eval_defs)
  have 5: "stores (sys_exec ?sched sys_init) ! 0 = stores (sys_exec ?sched sys_init) ! 1"
    by (simp add: sys_defs example_defs eval_defs)
  have 6: "listenerId (sessions (sys_exec ?sched sys_init) ! 0)
      \<noteq> listenerId (sessions (sys_exec ?sched sys_init) ! 1)"
    by (simp add: sys_defs example_defs eval_defs)
  have 7: "subscribed (sessions (sys_exec ?sched sys_init) ! 0)"
    by (simp add: sys_defs example_defs eval_defs)
  have 8: "side (sessions (sys_exec ?sched sys_init) ! 1) = Some Publishing"
    by (simp add: sys_defs example_defs eval_defs)
  have 9: "1 \<notin> set (processed (sys_exec ?sched sys_init))"
    by (simp add: sys_defs example_defs eval_defs)
  have b: "listenerId (sessions (sys_exec ?sched sys_init) ! 1) = listenerId session_B"
    by (simp add: sys_defs example_defs eval_defs)
  have l: "0 < length (sessions (sys_exec ?later sys_init))
      \<and> (0, listenerId session_B) \<in> set (in_flight (sys_exec ?later sys_init))
      \<and> subscribed (sessions (sys_exec ?later sys_init) ! 0)
      \<and> listenerId session_B \<noteq> listenerId (sessions (sys_exec ?later sys_init) ! 0)"
    by (simp add: sys_defs example_defs eval_defs)
  show ?thesis
    using announcement_cancels_subscribed_session
      [OF 1 2 3 4 5 6 7 8 9, of ?later "listenerId session_B"] l
    by (simp only: b) blast
qed

section \<open>Responses of the gateway endpoint\<close>

text \<open>
  The branches of the handler in their order: without a secret the answer is 500; with a
  secret and an \<^verbatim>\<open>Authorization\<close> header other than \<^verbatim>\<open>Bearer <secret>\<close> it is 401 with a
  plain-text body; with the right header the bot is initialised, and once that has
  succeeded the answer is 404 without a Discord adapter, and otherwise the promise of
  \<^verbatim>\<open>discordGateway.start\<close>, fulfilled with the response of the gateway listener or with
  the 500 response of the coordinator when the gateway listener throws.
\<close>

lemma GET_branches:
  "(\<not> truthy (CRON_SECRET env) \<longrightarrow>
      GET req env = Immediate \<lparr>status = 500, body = ''CRON_SECRET not configured'',
        content_type = ''text/plain;charset=UTF-8''\<rparr>)
   \<and> (CRON_SECRET env = Some secret \<and> secret \<noteq> [] \<longrightarrow>
       (authorization req \<noteq> Some (''Bearer '' @ secret) \<longrightarrow>
          GET req env = Immediate \<lparr>status = 401, body = ''Unauthorized'',
            content_type = ''text/plain;charset=UTF-8''\<rparr>)
     \<and> (authorization req = Some (''Bearer '' @ secret) \<longrightarrow>
         (bot_initialize env = Some e \<longrightarrow> GET req env = Rejected e)
       \<and> (bot_initialize env = None \<and> \<not> discord_adapter env \<longrightarrow>
            GET req env = Immediate \<lparr>status = 404, body = ''Discord adapter not configured'',
              content_type = ''text/plain;charset=UTF-8''\<rparr>)
       \<and> (bot_initialize env = None \<and> discord_adapter env \<longrightarrow>
            GET req env
              = Started (start_begin (discordGateway env) req \<lparr>getDuration = None\<rparr>
                  (clock env)) (webhookUrl env)
            \<and> ((\<forall>ev\<in>set evs. \<not> is_run_event ev) \<longrightarrow>
                main (exec (evs @ RunResolved r # evs')
                  (start_begin (discordGateway env) req \<lparr>getDuration = None\<rparr> (clock env)))
                  = Returned r
                \<and> main (exec (evs @ RunRejected e' # evs')
                  (start_begin (discordGateway env) req \<lparr>getDuration = None\<rparr> (clock env)))
                  = Returned (error_response ''discord-gateway'' e')))))"
proof -
  let ?s0 = "start_begin (discordGateway env) req \<lparr>getDuration = None\<rparr> (clock env)"
  have run: "(\<forall>ev\<in>set evs. \<not> is_run_event ev) \<longrightarrow>
      main (exec (evs @ RunResolved r # evs') ?s0) = Returned r
      \<and> main (exec (evs @ RunRejected e' # evs') ?s0)
          = Returned (error_response ''discord-gateway'' e')"
    using main_exec_resolved [of evs ?s0 r evs'] main_exec_rejected [of evs ?s0 e' evs']
    by (simp add: discordGateway_def)
  have a: "\<not> truthy (CRON_SECRET env) \<longrightarrow>
      GET req env = Immediate \<lparr>status = 500, body = ''CRON_SECRET not configured'',
        content_type = ''text/plain;charset=UTF-8''\<rparr>"
    by (simp add: GET_def truthy_def Response_text_def split: option.splits)
  have b: "CRON_SECRET env = Some secret \<and> secret \<noteq> [] \<longrightarrow>
      authorization req \<noteq> Some (''Bearer '' @ secret) \<longrightarrow>
      GET req env = Immediate \<lparr>status = 401, body = ''Unauthorized'',
            content_type = ''text/plain;charset=UTF-8''\<rparr>"
    by (simp add: GET_def truthy_def Response_text_def)
  have c: "CRON_SECRET env = Some secret \<and> secret \<noteq> [] \<longrightarrow>
      authorization req = Some (''Bearer '' @ secret) \<longrightarrow>
      bot_initialize env = Some e \<longrightarrow> GET req env = Rejected e"
    by (simp add: GET_def truthy_def)
  have d: "CRON_SECRET env = Some secret \<and> secret \<noteq> [] \<longrightarrow>
      authorization req = Some (''Bearer '' @ secret) \<longrightarrow>
      bot_initialize env = None \<and> \<not> discord_adapter env \<longrightarrow>
      GET req env = Immediate \<lparr>status = 404, body = ''Discord adapter not configured'',
              content_type = ''text/plain;charset=UTF-8''\<rparr>"
    by (simp add: GET_def truthy_def Response_text_def)
  have f: "CRON_SECRET env = Some secret \<and> secret \<noteq> [] \<longrightarrow>
      authorization req = Some (''Bearer '' @ secret) \<longrightarrow>
      bot_initialize env = None \<and> discord_adapter env \<longrightarrow>
      GET req env = Started ?s0 (webhookUrl env)"
    by (simp add: GET_def truthy_def)
  show ?thesis
    using a b c d f run by blast
qed

lemma GET_branches_example:
  "GET cron_request (gateway_environment\<lparr>CRON_SECRET := None\<rparr>)
     = Immediate \<lparr>status = 500, body = ''CRON_SECRET not configured'',
         content_type = ''text/plain;charset=UTF-8''\<rparr>
   \<and> GET (cron_request\<lparr>authorization := Some ''Bearer guess''\<rparr>) gateway_environment
     = Immediate \<lparr>status = 401, body = ''Unauthorized'',
         content_type = ''text/plain;charset=UTF-8''\<rparr>
   \<and> GET cron_request
       (gateway_environment\<lparr>bot_initialize := Some (JsError ''Redis is not reachable'')\<rparr>)
     = Rejected (JsError ''Redis is not reachable'')
   \<and> GET cron_request (gateway_environment\<lparr>discord_adapter := False\<rparr>)
     = Immediate \<lparr>status = 404, body = ''Discord adapter not configured'',
         content_type = ''text/plain;charset=UTF-8''\<rparr>
   \<and> GET cron_request gateway_environment
     = Started (start_begin (discordGateway gateway_environment) cron_request
         \<lparr>getDuration = None\<rparr> (clock gateway_environment)) (webhookUrl gateway_environment)
   \<and> main (exec ([ConnectSettled None] @ RunResolved ok_response # [SubscribeSettled None])
        (start_begin (discordGateway gateway_environment) cron_request
         \<lparr>getDuration = None\<rparr> (clock gateway_environment))) = Returned ok_response"
  using
    GET_branches [of "gateway_environment\<lparr>CRON_SECRET := None\<rparr>" cron_request]
    GET_branches [of gateway_environment "cron_request\<lparr>authorization := Some ''Bearer guess''\<rparr>"
      "''s3cret''"]
    GET_branches [of "gateway_environment\<lparr>discord_adapter := False\<rparr>" cron_request
      "''s3cret''"]
    GET_branches
      [of "gateway_environment\<lparr>bot_initialize := Some (JsError ''Redis is not reachable'')\<rparr>"
        cron_request "''s3cret''" "JsError ''Redis is not reachable''"]
    GET_branches [of gateway_environment cron_request "''s3cret''" _ "[ConnectSettled None]"
      ok_response "[SubscribeSettled None]"]
  by (simp add: gateway_environment_def cron_request_def truthy_def is_run_event_def)

text \<open>
  C7 at the failing input. The request carries the right secret, no Discord adapter is
  configured, and \<^verbatim>\<open>await bot.initialize()\<close> is rejected: the gateway handler awaits it
  outside any \<^verbatim>\<open>try\<close> block and before it looks for the adapter, so its promise is
  rejected and no 404 response is produced. The Slack install callback answers with a
  response in both situations: without its adapter it does not initialise the bot at all,
  and a failing initialisation is caught.
\<close>

theorem GET_rejects_when_initialize_fails:
  "GET cron_request
     (gateway_environment\<lparr>bot_initialize := Some (JsError ''connect ECONNREFUSED''),
        discord_adapter := False\<rparr>)
   = Rejected (JsError ''connect ECONNREFUSED'')
   \<and> slack_install_callback
       \<lparr>slack_adapter = False,
        slack_bot_initialize = Some (JsError ''connect ECONNREFUSED''),
        handleOAuthCallback = Inr ''T0123''\<rparr>
     = \<lparr>status = 500, body = ''Slack adapter not configured'',
        content_type = ''text/plain;charset=UTF-8''\<rparr>
   \<and> slack_install_callback
       \<lparr>slack_adapter = True,
        slack_bot_initialize = Some (JsError ''connect ECONNREFUSED''),
        handleOAuthCallback = Inr ''T0123''\<rparr>
     = \<lparr>status = 500, body = ''OAuth installation failed'',
        content_type = ''text/plain;charset=UTF-8''\<rparr>"
  by (simp add: GET_def gateway_environment_def cron_request_def truthy_def
      slack_install_callback_def Response_text_def)

end
